theory Spec2Isabelle
  imports Main "HOL-Library.AList"
begin

section \<open>Python values, exceptions and the objects a schema argument can be\<close>

text \<open>
  The module \<open>models/fields.py\<close> is an adapter between collaborators it does not define:
  the \<open>json\<close> decoder, the \<open>jsonschema\<close> engine and the JSON column of the host framework
  it subclasses. Python data is a value of \<open>pyval\<close>. An object with an identity of its own
  (a model instance, a mapping the caller shares with the field) is a reference \<open>PRef a\<close>
  into the host's store: what a call does to the object shows in the store, and handing
  the object on is handing on the reference. \<open>PDict\<close> and \<open>PList\<close> are data given by
  their content, as a decoder returns it.
\<close>

datatype pyval =
    PNone
  | PBool bool
  | PInt int
  | PFloat string
  | PStr string
  | PList "pyval list"
  | PDict "(string \<times> pyval) list"
  | PRef nat

text \<open>
  An exception is a value. The constructors are the classes the source names in its
  \<open>except\<close> clauses and \<open>raise\<close> statements: \<open>json.decoder.JSONDecodeError\<close>,
  \<open>jsonschema.exceptions.ValidationError\<close> and \<open>SchemaError\<close> (with their \<open>message\<close>),
  the host's \<open>ValidationError\<close> (message, then code), \<open>AttributeError\<close> (the attribute
  that is missing), and \<open>OtherError\<close> for every other class (its name, its message).
\<close>

datatype exn =
    JSONDecodeError string
  | Jsonschema_ValidationError string
  | Jsonschema_SchemaError string
  | ValidationError string string
  | AttributeError string
  | OtherError string string

text \<open>
  What \<open>callable(schema)\<close> tells apart: plain data, an instance of the module's own
  \<open>FieldReference\<close> class (its \<open>source\<close> attribute), and any other callable object
  (a function, a lambda, a class), identified by the host, which also runs it.
\<close>

datatype pyobj =
    Val pyval
  | FieldReference (source: "string list")
  | Callable nat

text \<open>
  A class handed to \<open>json.loads\<close> as \<open>cls\<close>, by its name. \<open>json.loads(s, cls=C)\<close>
  evaluates \<open>C().decode(s)\<close>; whether the instances of \<open>C\<close> have a \<open>decode\<close> method, and
  what it returns, is the host's to say.
\<close>

datatype json_cls = JsonCls (cls_name: string)

text \<open>
  The attributes of a \<open>JSONSchemaField\<close> that the module reads or writes: \<open>encoder\<close> (set by
  the base initialiser), \<open>_schema_kwarg\<close>, \<open>format_checker\<close> and \<open>_schema\<close>.
\<close>

record JSONSchemaField =
  self_encoder :: "json_cls option"
  self_schema_kwarg :: pyobj
  self_format_checker :: pyobj
  self_schema :: pyobj

text \<open>
  The state a method runs in: the field object \<open>this\<close> and the host's store \<open>world\<close>,
  where the model instances and everything else mutable live.

  The engine, \<open>getattr\<close> and the callable objects run code the module does not choose, on
  objects that can lead back to the field: the schema object goes to the engine by
  reference, and the instance handed to a computed schema function belongs to a model
  that holds the field. They are actions on the whole state, and may leave the field's
  attributes changed as well as the store.

  The base class's \<open>validate\<close> and \<open>deconstruct\<close> are the column's inherited code, which
  the module calls as its own and which has no part in the three attributes the module
  adds; they are effects on the store, run inside the state by \<open>in_world\<close>.
\<close>

record 'w state =
  this :: JSONSchemaField
  world :: 'w

type_synonym ('w, 'a) effect = "'w \<Rightarrow> (exn + 'a) \<times> 'w"

type_synonym ('w, 'a) action = "'w state \<Rightarrow> (exn + 'a) \<times> 'w state"

definition in_world :: "('w, 'a) effect \<Rightarrow> ('w, 'a) action" where
  "in_world f st = (case f (world st) of (r, w') \<Rightarrow> (r, st\<lparr>world := w'\<rparr>))"

text \<open>
  The collaborators: \<open>json.loads(s)\<close> with the default decoder, the \<open>decode\<close> method of
  the instances of a class (\<open>None\<close> when they have none), \<open>getattr(obj, attr)\<close>, the call of
  a callable object, \<open>jsonschema.validate(value, schema, cls=...)\<close>, and the base class's
  \<open>validate\<close> and \<open>deconstruct\<close>.
\<close>

record 'w host =
  json_decode :: "string \<Rightarrow> exn + pyval"
  decode_method :: "json_cls \<Rightarrow> (string \<Rightarrow> exn + pyval) option"
  getattr :: "pyval \<Rightarrow> string \<Rightarrow> ('w, pyval) action"
  call :: "nat \<Rightarrow> pyval \<Rightarrow> ('w, pyval) action"
  jsonschema_validate :: "pyval \<Rightarrow> pyval \<Rightarrow> pyobj \<Rightarrow> ('w, unit) action"
  super_validate :: "pyval \<Rightarrow> pyval \<Rightarrow> ('w, unit) effect"
  super_deconstruct ::
    "('w, string \<times> string \<times> pyobj list \<times> (string \<rightharpoonup> pyobj)) effect"

section \<open>FieldReference\<close>

text \<open>\<open>str.split(sep)\<close> for a one-character separator: one more piece than separators.\<close>

fun str_split :: "char \<Rightarrow> string \<Rightarrow> string list" where
  "str_split sep [] = [[]]"
| "str_split sep (c # cs) =
     (if c = sep then [] # str_split sep cs
      else (case str_split sep cs of [] \<Rightarrow> [[c]] | x # xs \<Rightarrow> (c # x) # xs))"

definition FieldReference_init :: "string \<Rightarrow> pyobj" where
  "FieldReference_init src = FieldReference (str_split (CHR ''.'') src)"

text \<open>
  \<open>__call__\<close>: the loop \<open>for attr in self.source: obj = getattr(obj, attr)\<close>; an
  exception of \<open>getattr\<close> ends it.
\<close>

fun FieldReference_call :: "'w host \<Rightarrow> string list \<Rightarrow> pyval \<Rightarrow> ('w, pyval) action" where
  "FieldReference_call h [] obj st = (Inr obj, st)"
| "FieldReference_call h (attr # rest) obj st =
     (case getattr h obj attr st of
        (Inl e, st') \<Rightarrow> (Inl e, st')
      | (Inr obj', st') \<Rightarrow> FieldReference_call h rest obj' st')"

section \<open>JSONSchemaField\<close>

text \<open>\<open>json.loads(s, **options)\<close>, where \<open>options\<close> is empty or holds \<open>cls\<close>.\<close>

definition json_loads :: "'w host \<Rightarrow> string \<Rightarrow> json_cls option \<Rightarrow> exn + pyval" where
  "json_loads h s cls =
     (case cls of
        None \<Rightarrow> json_decode h s
      | Some c \<Rightarrow>
          (case decode_method h c of
             None \<Rightarrow> Inl (AttributeError ''decode'')
           | Some d \<Rightarrow> d s))"

text \<open>
  \<open>__init__\<close>, after the base initialiser has set \<open>self.encoder\<close> to \<open>enc\<close>. Only
  \<open>JSONDecodeError\<close> is caught; any other exception of the parse leaves the constructor.
\<close>

definition JSONSchemaField_init ::
  "'w host \<Rightarrow> json_cls option \<Rightarrow> pyobj \<Rightarrow> pyobj \<Rightarrow> exn + JSONSchemaField" where
  "JSONSchemaField_init h enc schema format_checker =
     (let field = (\<lambda>parsed. \<lparr>self_encoder = enc, self_schema_kwarg = schema,
                     self_format_checker = format_checker, self_schema = parsed\<rparr>)
      in case schema of
           Val PNone \<Rightarrow> Inr (field (Val (PDict [])))
         | Val (PStr s) \<Rightarrow>
             (case json_loads h s enc of
                Inr v \<Rightarrow> Inr (field (Val v))
              | Inl (JSONDecodeError m) \<Rightarrow> Inr (field (FieldReference_init s))
              | Inl e \<Rightarrow> Inl e)
         | _ \<Rightarrow> Inr (field schema))"

text \<open>
  \<open>get_schema\<close>: \<open>self._schema\<close> is read once; a callable is called with the instance, and
  anything else is returned as it is stored.
\<close>

definition get_schema :: "'w host \<Rightarrow> pyval \<Rightarrow> ('w, pyval) action" where
  "get_schema h model_instance st =
     (case self_schema (this st) of
        Val v \<Rightarrow> (Inr v, st)
      | FieldReference src \<Rightarrow> FieldReference_call h src model_instance st
      | Callable f \<Rightarrow> call h f model_instance st)"

text \<open>
  \<open>validate_against_schema\<close>: the schema is resolved before the \<open>try\<close>; inside it,
  \<open>self.format_checker\<close> is read and the engine called, and the two \<open>except\<close> clauses
  follow in the source's order.
\<close>

definition validate_against_schema :: "'w host \<Rightarrow> pyval \<Rightarrow> pyval \<Rightarrow> ('w, unit) action" where
  "validate_against_schema h v model_instance st =
     (case get_schema h model_instance st of
        (Inl e, st1) \<Rightarrow> (Inl e, st1)
      | (Inr schema, st1) \<Rightarrow>
          (case jsonschema_validate h v schema (self_format_checker (this st1)) st1 of
             (Inl (Jsonschema_ValidationError m), st2) \<Rightarrow>
               (Inl (ValidationError m ''invalid_data''), st2)
           | (Inl (Jsonschema_SchemaError m), st2) \<Rightarrow>
               (Inl (ValidationError m ''invalid_schema_definition''), st2)
           | (Inl e, st2) \<Rightarrow> (Inl e, st2)
           | (Inr u, st2) \<Rightarrow> (Inr (), st2)))"

definition validate :: "'w host \<Rightarrow> pyval \<Rightarrow> pyval \<Rightarrow> ('w, unit) action" where
  "validate h v model_instance st =
     (case in_world (super_validate h v model_instance) st of
        (Inl e, st1) \<Rightarrow> (Inl e, st1)
      | (Inr u, st1) \<Rightarrow> validate_against_schema h v model_instance st1)"

definition deconstruct ::
  "'w host \<Rightarrow> ('w, string \<times> string \<times> pyobj list \<times> (string \<rightharpoonup> pyobj)) action" where
  "deconstruct h st =
     (case in_world (super_deconstruct h) st of
        (Inl e, st1) \<Rightarrow> (Inl e, st1)
      | (Inr (name, path, args, kwargs), st1) \<Rightarrow>
          (Inr (name, path, args,
                kwargs(''schema'' \<mapsto> self_schema_kwarg (this st1),
                       ''format_checker'' \<mapsto> self_format_checker (this st1))), st1))"

section \<open>The default JSON decoder\<close>

text \<open>
  The theorems below hold for every decoder a host supplies. To run the module on
  concrete text, this section gives \<open>json.loads\<close> with its default decoder: a lexer that
  cuts the text into tokens, and a pushdown parser over the tokens. It accepts what
  \<open>json\<close> accepts (the literals \<open>NaN\<close>, \<open>Infinity\<close> and \<open>-Infinity\<close> included, control
  characters in strings refused, the last of two equal keys kept), with two limits:
  characters are 8-bit here, so the escape \<open>\uXXXX\<close> is not read and text that uses it is
  refused; and a number with a fraction or an exponent is kept as \<open>PFloat\<close> of its text, not
  rounded. The message of \<open>JSONDecodeError\<close>, which the module drops, is a fixed one.
\<close>

datatype token = TLBrace | TRBrace | TLBracket | TRBracket | TColon | TComma | TScalar pyval

datatype lexmode = LTop | LString string | LEscape string | LWord string

definition is_ws :: "char \<Rightarrow> bool" where
  "is_ws c = (c \<in> set [CHR '' '', CHR 0x09, CHR 0x0A, CHR 0x0D])"

definition is_digit :: "char \<Rightarrow> bool" where
  "is_digit c = (c \<in> set ''0123456789'')"

definition is_word_char :: "char \<Rightarrow> bool" where
  "is_word_char c =
     (c \<in> set ''abcdefghijklmnopqrstuvwxyzABCDEFGHIJKLMNOPQRSTUVWXYZ0123456789+-.'')"

definition is_control :: "char \<Rightarrow> bool" where
  "is_control c = ((of_char c :: nat) < 32)"

definition punct :: "char \<Rightarrow> token option" where
  "punct c =
     (if c = CHR ''{'' then Some TLBrace else if c = CHR ''}'' then Some TRBrace
      else if c = CHR ''['' then Some TLBracket else if c = CHR '']'' then Some TRBracket
      else if c = CHR '':'' then Some TColon else if c = CHR '','' then Some TComma
      else None)"

definition escape :: "char \<Rightarrow> char option" where
  "escape c =
     (if c = CHR 0x22 \<or> c = CHR 0x5C \<or> c = CHR ''/'' then Some c
      else if c = CHR ''b'' then Some (CHR 0x08) else if c = CHR ''f'' then Some (CHR 0x0C)
      else if c = CHR ''n'' then Some (CHR 0x0A) else if c = CHR ''r'' then Some (CHR 0x0D)
      else if c = CHR ''t'' then Some (CHR 0x09) else None)"

definition digits_value :: "string \<Rightarrow> int" where
  "digits_value ds = foldl (\<lambda>a c. 10 * a + (int (of_char c) - 48)) 0 ds"

definition strip_frac :: "string \<Rightarrow> string option" where
  "strip_frac r =
     (case r of
        [] \<Rightarrow> Some []
      | c # ds \<Rightarrow>
          if c = CHR ''.'' then
            (if takeWhile is_digit ds = [] then None else Some (dropWhile is_digit ds))
          else Some r)"

definition strip_exp :: "string \<Rightarrow> string option" where
  "strip_exp r =
     (case r of
        [] \<Rightarrow> Some []
      | c # ds \<Rightarrow>
          if c = CHR ''e'' \<or> c = CHR ''E'' then
            (let ds' = (case ds of [] \<Rightarrow> []
                        | s # t \<Rightarrow> if s = CHR ''+'' \<or> s = CHR ''-'' then t else ds)
             in if takeWhile is_digit ds' = [] then None else Some (dropWhile is_digit ds'))
          else Some r)"

definition number_value :: "string \<Rightarrow> pyval option" where
  "number_value w =
     (let neg = (w \<noteq> [] \<and> hd w = CHR ''-'');
          body = (if neg then tl w else w);
          ip = takeWhile is_digit body;
          r1 = dropWhile is_digit body
      in if ip = [] \<or> (hd ip = CHR ''0'' \<and> ip \<noteq> ''0'') then None
         else case strip_frac r1 of
                None \<Rightarrow> None
              | Some r2 \<Rightarrow>
                  (case strip_exp r2 of
                     None \<Rightarrow> None
                   | Some r3 \<Rightarrow>
                       if r3 \<noteq> [] then None
                       else if r1 = [] then
                         Some (PInt (if neg then - digits_value ip else digits_value ip))
                       else Some (PFloat w)))"

definition word_value :: "string \<Rightarrow> pyval option" where
  "word_value w =
     (if w = ''null'' then Some PNone
      else if w = ''true'' then Some (PBool True)
      else if w = ''false'' then Some (PBool False)
      else if w = ''NaN'' \<or> w = ''Infinity'' \<or> w = ''-Infinity'' then Some (PFloat w)
      else number_value w)"

fun scan :: "lexmode \<Rightarrow> string \<Rightarrow> token list option" where
  "scan LTop [] = Some []"
| "scan LTop (c # cs) =
     (if is_ws c then scan LTop cs
      else if c = CHR 0x22 then scan (LString []) cs
      else if is_word_char c then scan (LWord [c]) cs
      else (case punct c of None \<Rightarrow> None | Some t \<Rightarrow> map_option (Cons t) (scan LTop cs)))"
| "scan (LString acc) [] = None"
| "scan (LString acc) (c # cs) =
     (if c = CHR 0x22 then map_option (Cons (TScalar (PStr (rev acc)))) (scan LTop cs)
      else if c = CHR 0x5C then scan (LEscape acc) cs
      else if is_control c then None
      else scan (LString (c # acc)) cs)"
| "scan (LEscape acc) [] = None"
| "scan (LEscape acc) (c # cs) =
     (case escape c of None \<Rightarrow> None | Some e \<Rightarrow> scan (LString (e # acc)) cs)"
| "scan (LWord acc) [] = map_option (\<lambda>v. [TScalar v]) (word_value (rev acc))"
| "scan (LWord acc) (c # cs) =
     (if is_word_char c then scan (LWord (c # acc)) cs
      else (case word_value (rev acc) of
              None \<Rightarrow> None
            | Some v \<Rightarrow>
                map_option (Cons (TScalar v))
                  (if is_ws c then scan LTop cs
                   else if c = CHR 0x22 then scan (LString []) cs
                   else (case punct c of
                           None \<Rightarrow> None
                         | Some t \<Rightarrow> map_option (Cons t) (scan LTop cs)))))"

datatype frame =
    FTop
  | FDone pyval
  | FArray "pyval list"
  | FObject "(string \<times> pyval) list" "string option"

datatype expect = EValue | EFirstElem | EFirstKey | EKey | EColon | EAfter

definition deliver :: "pyval \<Rightarrow> frame list \<Rightarrow> (frame list \<times> expect) option" where
  "deliver v stk =
     (case stk of
        FTop # r \<Rightarrow> Some (FDone v # r, EAfter)
      | FArray acc # r \<Rightarrow> Some (FArray (v # acc) # r, EAfter)
      | FObject ms (Some k) # r \<Rightarrow> Some (FObject (AList.update k v ms) None # r, EAfter)
      | _ \<Rightarrow> None)"

definition start_value :: "frame list \<Rightarrow> token \<Rightarrow> (frame list \<times> expect) option" where
  "start_value stk t =
     (case t of
        TScalar v \<Rightarrow> deliver v stk
      | TLBracket \<Rightarrow> Some (FArray [] # stk, EFirstElem)
      | TLBrace \<Rightarrow> Some (FObject [] None # stk, EFirstKey)
      | _ \<Rightarrow> None)"

definition close_array :: "frame list \<Rightarrow> (frame list \<times> expect) option" where
  "close_array stk =
     (case stk of FArray acc # r \<Rightarrow> deliver (PList (rev acc)) r | _ \<Rightarrow> None)"

definition close_object :: "frame list \<Rightarrow> (frame list \<times> expect) option" where
  "close_object stk =
     (case stk of FObject ms None # r \<Rightarrow> deliver (PDict ms) r | _ \<Rightarrow> None)"

definition member_key :: "frame list \<Rightarrow> token \<Rightarrow> (frame list \<times> expect) option" where
  "member_key stk t =
     (case (stk, t) of
        (FObject ms None # r, TScalar (PStr k)) \<Rightarrow> Some (FObject ms (Some k) # r, EColon)
      | _ \<Rightarrow> None)"

definition parse_step :: "frame list \<Rightarrow> expect \<Rightarrow> token \<Rightarrow> (frame list \<times> expect) option" where
  "parse_step stk e t =
     (case e of
        EValue \<Rightarrow> start_value stk t
      | EFirstElem \<Rightarrow> (if t = TRBracket then close_array stk else start_value stk t)
      | EFirstKey \<Rightarrow> (if t = TRBrace then close_object stk else member_key stk t)
      | EKey \<Rightarrow> member_key stk t
      | EColon \<Rightarrow> (if t = TColon then Some (stk, EValue) else None)
      | EAfter \<Rightarrow>
          (case t of
             TComma \<Rightarrow>
               (case stk of
                  FArray acc # r \<Rightarrow> Some (stk, EValue)
                | FObject ms None # r \<Rightarrow> Some (stk, EKey)
                | _ \<Rightarrow> None)
           | TRBracket \<Rightarrow> close_array stk
           | TRBrace \<Rightarrow> close_object stk
           | _ \<Rightarrow> None))"

fun parse_tokens :: "frame list \<Rightarrow> expect \<Rightarrow> token list \<Rightarrow> pyval option" where
  "parse_tokens stk e [] = (case stk of [FDone v] \<Rightarrow> Some v | _ \<Rightarrow> None)"
| "parse_tokens stk e (t # ts) =
     (case parse_step stk e t of None \<Rightarrow> None | Some (stk', e') \<Rightarrow> parse_tokens stk' e' ts)"

definition default_decoder :: "string \<Rightarrow> exn + pyval" where
  "default_decoder s =
     (case scan LTop s of
        None \<Rightarrow> Inl (JSONDecodeError ''Expecting value'')
      | Some ts \<Rightarrow>
          (case parse_tokens [FTop] EValue ts of
             None \<Rightarrow> Inl (JSONDecodeError ''Expecting value'')
           | Some v \<Rightarrow> Inr v))"

section \<open>A host to run the module on\<close>

text \<open>
  A store of objects, each a list of attributes; \<open>getattr\<close> on a reference reads the
  store, and plain data has no attribute.
\<close>

type_synonym heap = "(nat \<times> (string \<times> pyval) list) list"

definition object_getattr :: "pyval \<Rightarrow> string \<Rightarrow> (heap, pyval) action" where
  "object_getattr obj attr =
     in_world (\<lambda>w.
       case obj of
         PRef a \<Rightarrow>
           (case map_of w a of
              None \<Rightarrow> (Inl (AttributeError attr), w)
            | Some attrs \<Rightarrow>
                (case map_of attrs attr of
                   None \<Rightarrow> (Inl (AttributeError attr), w)
                 | Some x \<Rightarrow> (Inr x, w)))
       | _ \<Rightarrow> (Inl (AttributeError attr), w))"

text \<open>
  Two callable objects: \<open>lambda instance: {"type": "string"}\<close> is number 0, and a function
  that fails with \<open>KeyError\<close> is number 1. Any other number is an object that cannot be
  called with one argument.
\<close>

definition example_call :: "nat \<Rightarrow> pyval \<Rightarrow> (heap, pyval) action" where
  "example_call f model_instance =
     in_world (\<lambda>w.
       if f = 0 then (Inr (PDict [(''type'', PStr ''string'')]), w)
       else if f = 1 then (Inl (OtherError ''KeyError'' ''schema''), w)
       else (Inl (OtherError ''TypeError'' ''not callable''), w))"

text \<open>
  A computed schema function that writes to the instance it is given before it returns
  the empty schema: \<open>def f(instance): instance.touched = True; return {}\<close>.
\<close>

definition touching_call :: "nat \<Rightarrow> pyval \<Rightarrow> (heap, pyval) action" where
  "touching_call f model_instance =
     in_world (\<lambda>w.
       case model_instance of
         PRef a \<Rightarrow>
           (case map_of w a of
              None \<Rightarrow> (Inl (AttributeError ''touched''), w)
            | Some attrs \<Rightarrow>
                (Inr (PDict []),
                 AList.update a (AList.update ''touched'' (PBool True) attrs) w))
       | _ \<Rightarrow> (Inl (AttributeError ''touched''), w))"

text \<open>
  A stand-in for the engine, for the schemas the examples use: the schemas \<open>true\<close> and
  \<open>false\<close>, and an object schema whose only keywords are a \<open>type\<close> and a \<open>$ref\<close> that does
  not resolve. On these it returns or raises the class of exception that
  \<open>jsonschema.validate\<close> does, with a shortened message: a \<open>type\<close> that is not the name of
  a JSON type makes the schema malformed (\<open>SchemaError\<close>); a reference that does not
  resolve raises \<open>RefResolutionError\<close>, which is neither of the two classes the module
  catches; a schema that is no mapping and no boolean makes the engine fail with
  \<open>TypeError\<close>.
\<close>

definition json_type :: "pyval \<Rightarrow> string" where
  "json_type v =
     (case v of
        PNone \<Rightarrow> ''null'' | PBool b \<Rightarrow> ''boolean'' | PInt i \<Rightarrow> ''integer''
      | PFloat x \<Rightarrow> ''number'' | PStr s \<Rightarrow> ''string'' | PList xs \<Rightarrow> ''array''
      | PDict ms \<Rightarrow> ''object'' | PRef a \<Rightarrow> ''instance'')"

definition json_types :: "string list" where
  "json_types =
     [''null'', ''boolean'', ''integer'', ''number'', ''string'', ''array'', ''object'']"

definition example_validate :: "pyval \<Rightarrow> pyval \<Rightarrow> pyobj \<Rightarrow> (heap, unit) action" where
  "example_validate v schema cls =
     in_world (\<lambda>w.
       case schema of
         PBool b \<Rightarrow>
           (if b then (Inr (), w)
            else (Inl (Jsonschema_ValidationError ''False schema does not allow the value''), w))
       | PDict kws \<Rightarrow>
           (case map_of kws ''type'' of
              None \<Rightarrow>
                (if map_of kws ''$ref'' = None then (Inr (), w)
                 else (Inl (OtherError ''RefResolutionError'' ''Unresolvable JSON pointer''), w))
            | Some (PStr t) \<Rightarrow>
                (if t \<notin> set json_types then
                   (Inl (Jsonschema_SchemaError (t @ '' is not a valid type'')), w)
                 else if map_of kws ''$ref'' \<noteq> None then
                   (Inl (OtherError ''RefResolutionError'' ''Unresolvable JSON pointer''), w)
                 else if json_type v = t \<or> (t = ''number'' \<and> json_type v = ''integer'') then
                   (Inr (), w)
                 else (Inl (Jsonschema_ValidationError (''the value is not of type '' @ t)), w))
            | Some other \<Rightarrow>
                (Inl (Jsonschema_SchemaError
                        ''the type is not valid under any of the given schemas''), w))
       | _ \<Rightarrow> (Inl (OtherError ''TypeError'' ''the schema is not iterable''), w))"

text \<open>
  The base JSON column: its \<open>validate\<close> refuses a value that is no JSON data with the code
  \<open>invalid\<close>, and its \<open>deconstruct\<close> returns the column's name, the path of its class, no
  positional argument and the keyword arguments the base class knows.
\<close>

definition example_super_validate :: "pyval \<Rightarrow> pyval \<Rightarrow> (heap, unit) effect" where
  "example_super_validate v model_instance w =
     (case v of
        PRef a \<Rightarrow> (Inl (ValidationError ''Value must be valid JSON.'' ''invalid''), w)
      | _ \<Rightarrow> (Inr (), w))"

definition example_super_deconstruct ::
  "(heap, string \<times> string \<times> pyobj list \<times> (string \<rightharpoonup> pyobj)) effect" where
  "example_super_deconstruct w =
     (Inr (''json_field'', ''models.fields.JSONSchemaField'', [],
           [''blank'' \<mapsto> Val (PBool True)]), w)"

text \<open>
  Of the classes the examples name, the instances of \<open>json.JSONDecoder\<close> have a \<open>decode\<close>
  method, the default decoder. An encoder class as the JSON column takes it is a subclass
  of \<open>json.JSONEncoder\<close>, which has an \<open>encode\<close> method and no \<open>decode\<close> method.
\<close>

definition example_decode_method :: "json_cls \<Rightarrow> (string \<Rightarrow> exn + pyval) option" where
  "example_decode_method c =
     (if cls_name c = ''JSONDecoder'' then Some default_decoder else None)"

definition DjangoJSONEncoder :: json_cls where
  "DjangoJSONEncoder = JsonCls ''DjangoJSONEncoder''"

definition example_host :: "heap host" where
  "example_host =
     \<lparr>json_decode = default_decoder, decode_method = example_decode_method,
      getattr = object_getattr, call = example_call,
      jsonschema_validate = example_validate, super_validate = example_super_validate,
      super_deconstruct = example_super_deconstruct\<rparr>"

section \<open>Words of the specification\<close>

text \<open>
  \<open>sep.join(pieces)\<close>: with it, "the entire string is stored" is said of the pieces a
  \<open>FieldReference\<close> keeps.
\<close>

fun str_join :: "string \<Rightarrow> string list \<Rightarrow> string" where
  "str_join sep [] = []"
| "str_join sep [x] = x"
| "str_join sep (x # y # ys) = x @ sep @ str_join sep (y # ys)"

text \<open>
  The specification's walk of a dotted path: "walk attribute access from the instance for
  each path segment in order, return the final value". One read is applied to the outcome
  so far, and the reads are folded over the segments from the left.
\<close>

definition read_attribute ::
  "'w host \<Rightarrow> (exn + pyval) \<times> 'w state \<Rightarrow> string \<Rightarrow> (exn + pyval) \<times> 'w state" where
  "read_attribute h r attr =
     (case r of (Inl e, st) \<Rightarrow> (Inl e, st) | (Inr obj, st) \<Rightarrow> getattr h obj attr st)"

definition attribute_path :: "'w host \<Rightarrow> string list \<Rightarrow> pyval \<Rightarrow> ('w, pyval) action" where
  "attribute_path h segments model_instance st =
     foldl (read_attribute h) (Inr model_instance, st) segments"

text \<open>
  What a method's collaborators leave of the state. A \<open>view\<close> is any part of the state:
  the whole of it, the field's attributes \<open>this\<close>, the store \<open>world\<close> where the value and
  the instance live. The predicates below say that the calls a method makes to its
  collaborators, these calls and no others, each leave the view as they found it:
  the attribute reads of a path walk, as far as the walk gets; the resolution of the
  stored schema (no call for plain data, the walk for a reference, the one call of a
  computed function); the engine's call on the resolved schema; and for \<open>validate\<close> the
  base validation, then the resolution and the engine when the base validation returned.
\<close>

fun reads_keep ::
  "('w state \<Rightarrow> 'a) \<Rightarrow> 'w host \<Rightarrow> string list \<Rightarrow> pyval \<Rightarrow> 'w state \<Rightarrow> bool" where
  "reads_keep view h [] obj st = True"
| "reads_keep view h (attr # rest) obj st =
     (case getattr h obj attr st of
        (Inl e, st') \<Rightarrow> view st' = view st
      | (Inr obj', st') \<Rightarrow> view st' = view st \<and> reads_keep view h rest obj' st')"

definition resolution_keeps ::
  "('w state \<Rightarrow> 'a) \<Rightarrow> 'w host \<Rightarrow> pyval \<Rightarrow> 'w state \<Rightarrow> bool" where
  "resolution_keeps view h model_instance st =
     (case self_schema (this st) of
        Val v \<Rightarrow> True
      | FieldReference src \<Rightarrow> reads_keep view h src model_instance st
      | Callable f \<Rightarrow> view (snd (call h f model_instance st)) = view st)"

definition engine_keeps ::
  "('w state \<Rightarrow> 'a) \<Rightarrow> 'w host \<Rightarrow> pyval \<Rightarrow> pyval \<Rightarrow> 'w state \<Rightarrow> bool" where
  "engine_keeps view h v model_instance st =
     (case get_schema h model_instance st of
        (Inl e, st1) \<Rightarrow> True
      | (Inr schema, st1) \<Rightarrow>
          view (snd (jsonschema_validate h v schema (self_format_checker (this st1)) st1)) =
            view st1)"

definition validation_keeps ::
  "('w state \<Rightarrow> 'a) \<Rightarrow> 'w host \<Rightarrow> pyval \<Rightarrow> pyval \<Rightarrow> 'w state \<Rightarrow> bool" where
  "validation_keeps view h v model_instance st =
     (case in_world (super_validate h v model_instance) st of
        (Inl e, st1) \<Rightarrow> view st1 = view st
      | (Inr u, st1) \<Rightarrow>
          view st1 = view st \<and> resolution_keeps view h model_instance st1
          \<and> engine_keeps view h v model_instance st1)"

text \<open>
  Modelled from the spec: the answer of the JSON Schema engine on the empty schema. The
  engine (\<open>jsonschema.validate\<close>) is not among the repository's files. The specification
  says of the empty schema that it "accepts any JSON value" (Data model) and that
  "validating any value against it succeeds" (Testable properties); it names no effect of
  the engine. On every other schema the engine is left as the host has it.
\<close>

definition engine_of_spec ::
  "(pyval \<Rightarrow> pyval \<Rightarrow> pyobj \<Rightarrow> ('w, unit) action) \<Rightarrow>
   pyval \<Rightarrow> pyval \<Rightarrow> pyobj \<Rightarrow> ('w, unit) action" where
  "engine_of_spec engine v schema cls st =
     (if schema = PDict [] then (Inr (), st) else engine v schema cls st)"

text \<open>
  The field a declaration leaves when the column has no encoder and no format checker is
  given: the argument as passed, and what was made of it.
\<close>

definition declared :: "pyobj \<Rightarrow> pyobj \<Rightarrow> JSONSchemaField" where
  "declared schema parsed =
     \<lparr>self_encoder = None, self_schema_kwarg = schema,
      self_format_checker = Val PNone, self_schema = parsed\<rparr>"

section \<open>Lemmas on the store, the path walk and the constructor\<close>

lemma this_in_world: "this (snd (in_world f st)) = this st"
  by (simp add: in_world_def split: prod.splits)

lemma in_world_unchanged: "snd (f (world st)) = world st \<Longrightarrow> snd (in_world f st) = st"
  by (cases "f (world st)") (simp add: in_world_def)

lemma str_split_not_Nil: "str_split sep s \<noteq> []"
  by (induction s) (auto split: list.splits)

lemma str_join_str_split: "str_join [sep] (str_split sep s) = s"
proof (induction s)
  case Nil
  show ?case by simp
next
  case (Cons c cs)
  obtain x xs where split_cs: "str_split sep cs = x # xs"
    using str_split_not_Nil [of sep cs] by (cases "str_split sep cs") auto
  show ?case
  proof (cases "c = sep")
    case True
    with Cons split_cs show ?thesis by simp
  next
    case False
    with Cons split_cs show ?thesis by (cases xs) auto
  qed
qed

lemma FieldReference_call_append:
  "FieldReference_call h (pre @ rest) obj st =
     (case FieldReference_call h pre obj st of
        (Inl e, st') \<Rightarrow> (Inl e, st')
      | (Inr obj', st') \<Rightarrow> FieldReference_call h rest obj' st')"
  by (induction pre arbitrary: obj st) (auto split: prod.splits sum.splits)

lemma foldl_read_attribute_failed:
  "foldl (read_attribute h) (Inl e, st) segments = (Inl e, st)"
  by (induction segments) (auto simp: read_attribute_def)

lemma FieldReference_call_attribute_path:
  "FieldReference_call h segments obj st = attribute_path h segments obj st"
proof (induction segments arbitrary: obj st)
  case Nil
  show ?case by (simp add: attribute_path_def)
next
  case (Cons attr rest)
  show ?case
  proof (cases "getattr h obj attr st")
    case (Pair r st')
    show ?thesis
    proof (cases r)
      case (Inl e)
      with Pair show ?thesis
        by (simp add: attribute_path_def read_attribute_def foldl_read_attribute_failed)
    next
      case (Inr obj')
      with Pair Cons [of obj' st'] show ?thesis
        by (simp add: attribute_path_def read_attribute_def)
    qed
  qed
qed

lemma init_keeps_arguments:
  "JSONSchemaField_init h enc schema fc = Inr fld \<Longrightarrow>
     self_schema_kwarg fld = schema \<and> self_format_checker fld = fc \<and> self_encoder fld = enc"
  by (auto simp: JSONSchemaField_init_def Let_def
      split: pyobj.splits pyval.splits sum.splits exn.splits)

lemma get_schema_Val:
  "self_schema (this st) = Val s \<Longrightarrow> get_schema h model_instance st = (Inr s, st)"
  by (simp add: get_schema_def)

subsection \<open>Validation does not use the decoders\<close>

lemma FieldReference_call_decoders:
  "FieldReference_call (h\<lparr>json_decode := d, decode_method := dm\<rparr>) segments obj st =
     FieldReference_call h segments obj st"
  by (induction segments arbitrary: obj st) (auto split: prod.splits sum.splits)

lemma get_schema_decoders:
  "get_schema (h\<lparr>json_decode := d, decode_method := dm\<rparr>) model_instance st =
     get_schema h model_instance st"
  by (simp add: get_schema_def FieldReference_call_decoders split: pyobj.splits)

lemma validate_against_schema_decoders:
  "validate_against_schema (h\<lparr>json_decode := d, decode_method := dm\<rparr>) v model_instance st =
     validate_against_schema h v model_instance st"
  by (simp add: validate_against_schema_def get_schema_decoders cong: sum.case_cong)

lemma validate_decoders:
  "validate (h\<lparr>json_decode := d, decode_method := dm\<rparr>) v model_instance st =
     validate h v model_instance st"
  by (simp add: validate_def validate_against_schema_decoders cong: sum.case_cong)

subsection \<open>The example host, evaluated\<close>

lemma example_host_sel:
  "json_decode example_host = default_decoder"
  "decode_method example_host = example_decode_method"
  "getattr example_host = object_getattr"
  "call example_host = example_call"
  "jsonschema_validate example_host = example_validate"
  "super_validate example_host = example_super_validate"
  "super_deconstruct example_host = example_super_deconstruct"
  by (simp_all add: example_host_def)

lemma default_decoder_5: "default_decoder ''5'' = Inr (PInt 5)"
  by code_simp

lemma default_decoder_null: "default_decoder ''null'' = Inr PNone"
  by code_simp

lemma default_decoder_model_field:
  "default_decoder ''model_field'' = Inl (JSONDecodeError ''Expecting value'')"
  by code_simp

lemma default_decoder_a_b: "default_decoder ''a.b'' = Inl (JSONDecodeError ''Expecting value'')"
  by code_simp

lemma default_decoder_empty_object: "default_decoder ''{}'' = Inr (PDict [])"
  by code_simp

lemma example_validate_empty_schema: "example_validate v (PDict []) cls st = (Inr (), st)"
  by (simp add: example_validate_def in_world_def)

lemma engine_of_spec_example_validate: "engine_of_spec example_validate = example_validate"
  by (intro ext) (simp add: engine_of_spec_def example_validate_empty_schema)

subsection \<open>What the collaborators keep, the methods keep\<close>

lemma reads_keep_FieldReference_call:
  "reads_keep view h segments obj st \<Longrightarrow>
     view (snd (FieldReference_call h segments obj st)) = view st"
proof (induction segments arbitrary: obj st)
  case Nil
  show ?case by simp
next
  case (Cons attr rest)
  obtain r st' where read: "getattr h obj attr st = (r, st')"
    by (cases "getattr h obj attr st")
  show ?case
  proof (cases r)
    case (Inl e)
    with read Cons.prems show ?thesis by simp
  next
    case (Inr obj')
    with read Cons.prems have kept: "view st' = view st"
      and rest_kept: "reads_keep view h rest obj' st'"
      by simp_all
    from Cons.IH [OF rest_kept] kept read Inr show ?thesis by simp
  qed
qed

lemma get_schema_keeps:
  "resolution_keeps view h model_instance st \<Longrightarrow>
     view (snd (get_schema h model_instance st)) = view st"
  by (auto simp: resolution_keeps_def get_schema_def reads_keep_FieldReference_call
      split: pyobj.splits)

lemma validate_against_schema_keeps:
  assumes resolution: "resolution_keeps view h model_instance st"
    and engine: "engine_keeps view h v model_instance st"
  shows "view (snd (validate_against_schema h v model_instance st)) = view st"
proof (cases "get_schema h model_instance st")
  case (Pair r st1)
  with get_schema_keeps [OF resolution] have kept: "view st1 = view st" by simp
  show ?thesis
  proof (cases r)
    case (Inl e)
    with Pair kept show ?thesis by (simp add: validate_against_schema_def)
  next
    case (Inr schema)
    obtain r2 st2 where answer:
      "jsonschema_validate h v schema (self_format_checker (this st1)) st1 = (r2, st2)"
      by (cases "jsonschema_validate h v schema (self_format_checker (this st1)) st1")
    with engine Pair Inr have "view st2 = view st1" by (simp add: engine_keeps_def)
    with Pair Inr answer kept show ?thesis
      by (simp add: validate_against_schema_def split: sum.splits exn.splits)
  qed
qed

lemma validate_keeps:
  assumes "validation_keeps view h v model_instance st"
  shows "view (snd (validate h v model_instance st)) = view st"
proof (cases "in_world (super_validate h v model_instance) st")
  case (Pair r st1)
  show ?thesis
  proof (cases r)
    case (Inl e)
    with Pair assms show ?thesis by (simp add: validate_def validation_keeps_def)
  next
    case (Inr u)
    with Pair assms have kept: "view st1 = view st"
      and resolution: "resolution_keeps view h model_instance st1"
      and engine: "engine_keeps view h v model_instance st1"
      by (simp_all add: validation_keeps_def)
    from validate_against_schema_keeps [OF resolution engine] Pair Inr kept show ?thesis
      by (simp add: validate_def)
  qed
qed

lemma deconstruct_keeps:
  assumes "view (snd (in_world (super_deconstruct h) st)) = view st"
  shows "view (snd (deconstruct h st)) = view st"
proof (cases "in_world (super_deconstruct h) st")
  case (Pair r st1)
  with assms show ?thesis by (simp add: deconstruct_def split: sum.splits prod.splits)
qed

section \<open>The claims\<close>

text \<open>
  C1, as stated, fails in its last part: the engine can report neither of the two
  failures and still not return. The text \<open>null\<close> is valid JSON, so a field declared with
  it stores \<open>None\<close> as its schema; on that schema the engine raises \<open>TypeError\<close>, which is
  neither \<open>ValidationError\<close> nor \<open>SchemaError\<close>, and \<open>validate_against_schema\<close> raises it
  too instead of returning.
\<close>

theorem engine_reports_neither_failure:
  "JSONSchemaField_init example_host None (Val (PStr ''null'')) (Val PNone) =
     Inr (declared (Val (PStr ''null'')) (Val PNone))
   \<and> jsonschema_validate example_host (PInt 5) PNone (Val PNone)
       \<lparr>this = declared (Val (PStr ''null'')) (Val PNone), world = []\<rparr> =
       (Inl (OtherError ''TypeError'' ''the schema is not iterable''),
        \<lparr>this = declared (Val (PStr ''null'')) (Val PNone), world = []\<rparr>)
   \<and> validate_against_schema example_host (PInt 5) (PRef 0)
       \<lparr>this = declared (Val (PStr ''null'')) (Val PNone), world = []\<rparr> =
       (Inl (OtherError ''TypeError'' ''the schema is not iterable''),
        \<lparr>this = declared (Val (PStr ''null'')) (Val PNone), world = []\<rparr>)"
  by (simp add: JSONSchemaField_init_def json_loads_def validate_against_schema_def
      get_schema_def in_world_def declared_def example_host_sel example_validate_def
      default_decoder_null)

text \<open>
  C1, amended. Once the schema is resolved, what \<open>validate_against_schema\<close> does follows
  the engine's answer: when the engine reports that the value does not conform
  (\<open>jsonschema.exceptions.ValidationError\<close> with message \<open>m\<close>), the host's
  \<open>ValidationError\<close> is raised with the message \<open>m\<close>, unchanged, and the code
  \<open>invalid_data\<close>; when it reports that the schema is malformed (\<open>SchemaError\<close> with
  message \<open>m\<close>), the host's \<open>ValidationError\<close> is raised with \<open>m\<close> and the code
  \<open>invalid_schema_definition\<close>; when the engine returns, the call returns \<open>None\<close>; and
  when the engine raises an exception of any other class, the call does not return: it
  raises that exception.
\<close>

theorem validate_against_schema_outcomes:
  assumes resolved: "get_schema h model_instance st = (Inr schema, st1)"
    and engine: "jsonschema_validate h v schema (self_format_checker (this st1)) st1 = (r, st2)"
  shows "(r = Inl (Jsonschema_ValidationError m) \<longrightarrow>
            validate_against_schema h v model_instance st =
              (Inl (ValidationError m ''invalid_data''), st2))
       \<and> (r = Inl (Jsonschema_SchemaError m) \<longrightarrow>
            validate_against_schema h v model_instance st =
              (Inl (ValidationError m ''invalid_schema_definition''), st2))
       \<and> (r = Inr () \<longrightarrow>
            validate_against_schema h v model_instance st = (Inr (), st2))
       \<and> (r = Inl e \<and> (\<forall>m'. e \<noteq> Jsonschema_ValidationError m')
            \<and> (\<forall>m'. e \<noteq> Jsonschema_SchemaError m') \<longrightarrow>
            validate_against_schema h v model_instance st = (Inl e, st2))"
  using resolved engine
  by (auto simp: validate_against_schema_def split: exn.splits)

theorem validate_against_schema_outcomes_witness:
  "validate_against_schema example_host (PStr ''x'') (PRef 0)
     \<lparr>this = declared (Val (PDict [(''type'', PStr ''integer'')]))
               (Val (PDict [(''type'', PStr ''integer'')])), world = []\<rparr> =
     (Inl (ValidationError ''the value is not of type integer'' ''invalid_data''),
      \<lparr>this = declared (Val (PDict [(''type'', PStr ''integer'')]))
                (Val (PDict [(''type'', PStr ''integer'')])), world = []\<rparr>)
   \<and> validate_against_schema example_host (PInt 5) (PRef 0)
     \<lparr>this = declared (Val (PDict [(''type'', PInt 123)]))
               (Val (PDict [(''type'', PInt 123)])), world = []\<rparr> =
     (Inl (ValidationError ''the type is not valid under any of the given schemas''
             ''invalid_schema_definition''),
      \<lparr>this = declared (Val (PDict [(''type'', PInt 123)]))
                (Val (PDict [(''type'', PInt 123)])), world = []\<rparr>)
   \<and> validate_against_schema example_host (PInt 5) (PRef 0)
     \<lparr>this = declared (Val (PDict [(''type'', PStr ''integer'')]))
               (Val (PDict [(''type'', PStr ''integer'')])), world = []\<rparr> =
     (Inr (),
      \<lparr>this = declared (Val (PDict [(''type'', PStr ''integer'')]))
                (Val (PDict [(''type'', PStr ''integer'')])), world = []\<rparr>)
   \<and> validate_against_schema example_host (PInt 5) (PRef 0)
     \<lparr>this = declared (Val (PList [])) (Val (PList [])), world = []\<rparr> =
     (Inl (OtherError ''TypeError'' ''the schema is not iterable''),
      \<lparr>this = declared (Val (PList [])) (Val (PList [])), world = []\<rparr>)"
proof -
  let ?int = "PDict [(''type'', PStr ''integer'')]"
  let ?bad = "PDict [(''type'', PInt 123)]"
  let ?st = "\<lambda>schema. \<lparr>this = declared (Val schema) (Val schema), world = ([] :: heap)\<rparr>"
  have g: "get_schema example_host (PRef 0) (?st schema) = (Inr schema, ?st schema)" for schema
    by (rule get_schema_Val) (simp add: declared_def)
  have e1: "jsonschema_validate example_host (PStr ''x'') ?int
              (self_format_checker (this (?st ?int))) (?st ?int) =
            (Inl (Jsonschema_ValidationError ''the value is not of type integer''), ?st ?int)"
    by (simp add: example_host_sel example_validate_def in_world_def json_types_def
        json_type_def)
  have e2: "jsonschema_validate example_host (PInt 5) ?bad
              (self_format_checker (this (?st ?bad))) (?st ?bad) =
            (Inl (Jsonschema_SchemaError
                    ''the type is not valid under any of the given schemas''), ?st ?bad)"
    by (simp add: example_host_sel example_validate_def in_world_def)
  have e3: "jsonschema_validate example_host (PInt 5) ?int
              (self_format_checker (this (?st ?int))) (?st ?int) = (Inr (), ?st ?int)"
    by (simp add: example_host_sel example_validate_def in_world_def json_types_def
        json_type_def)
  have e4: "jsonschema_validate example_host (PInt 5) (PList [])
              (self_format_checker (this (?st (PList [])))) (?st (PList [])) =
            (Inl (OtherError ''TypeError'' ''the schema is not iterable''), ?st (PList []))"
    by (simp add: example_host_sel example_validate_def in_world_def)
  show ?thesis
    using validate_against_schema_outcomes [OF g e1, of "''the value is not of type integer''"]
      validate_against_schema_outcomes [OF g e2,
        of "''the type is not valid under any of the given schemas''"]
      validate_against_schema_outcomes [OF g e3]
      validate_against_schema_outcomes [OF g e4, of _ "OtherError ''TypeError'' ''the schema is not iterable''"]
    by simp
qed

text \<open>
  C2, as stated, fails: the text \<open>5\<close> is valid JSON, so the parse succeeds and the stored
  schema is the integer 5, which is neither a mapping nor a dotted-path reference.
\<close>

theorem string_spec_stored_as_integer:
  "JSONSchemaField_init example_host None (Val (PStr ''5'')) (Val PNone) =
     Inr (declared (Val (PStr ''5'')) (Val (PInt 5)))"
  by (simp add: JSONSchemaField_init_def json_loads_def example_host_sel default_decoder_5
      declared_def)

text \<open>
  C2, amended. A string argument is parsed at declaration, by \<open>json.loads\<close> with the
  options of the column. When the parse returns, the stored schema is the value it
  returned, whatever JSON value that is (a mapping only when the text is a JSON object);
  when it raises \<open>JSONDecodeError\<close>, the stored schema is a \<open>FieldReference\<close> whose
  segments, joined by dots, are the entire string. Nothing is parsed at validation time:
  resolving the schema and validating use neither the default decoder nor the \<open>decode\<close>
  method of any class, the column's encoder class included, since with any other decoder
  and any other \<open>decode\<close> methods in their place they give the same.
\<close>

theorem string_spec_parsed_at_declaration:
  "(json_loads h s enc = Inr parsed \<longrightarrow>
      JSONSchemaField_init h enc (Val (PStr s)) fc =
        Inr \<lparr>self_encoder = enc, self_schema_kwarg = Val (PStr s),
             self_format_checker = fc, self_schema = Val parsed\<rparr>)
   \<and> (json_loads h s enc = Inl (JSONDecodeError m) \<longrightarrow>
      JSONSchemaField_init h enc (Val (PStr s)) fc =
        Inr \<lparr>self_encoder = enc, self_schema_kwarg = Val (PStr s),
             self_format_checker = fc,
             self_schema = FieldReference (str_split (CHR ''.'') s)\<rparr>
      \<and> str_join ''.'' (str_split (CHR ''.'') s) = s)
   \<and> get_schema (h\<lparr>json_decode := d, decode_method := dm\<rparr>) model_instance st =
       get_schema h model_instance st
   \<and> validate_against_schema (h\<lparr>json_decode := d, decode_method := dm\<rparr>) v model_instance st =
       validate_against_schema h v model_instance st
   \<and> validate (h\<lparr>json_decode := d, decode_method := dm\<rparr>) v model_instance st =
       validate h v model_instance st"
  by (simp add: JSONSchemaField_init_def FieldReference_init_def str_join_str_split
      get_schema_decoders validate_against_schema_decoders validate_decoders)

theorem string_spec_parsed_at_declaration_witness:
  "JSONSchemaField_init example_host None (Val (PStr ''{}'')) (Val PNone) =
     Inr (declared (Val (PStr ''{}'')) (Val (PDict [])))
   \<and> JSONSchemaField_init example_host (Some (JsonCls ''JSONDecoder'')) (Val (PStr ''{}''))
       (Val PNone) =
     Inr \<lparr>self_encoder = Some (JsonCls ''JSONDecoder''), self_schema_kwarg = Val (PStr ''{}''),
          self_format_checker = Val PNone, self_schema = Val (PDict [])\<rparr>
   \<and> JSONSchemaField_init example_host None (Val (PStr ''model_field'')) (Val PNone) =
     Inr (declared (Val (PStr ''model_field'')) (FieldReference [''model_field'']))
   \<and> JSONSchemaField_init example_host None (Val (PStr ''a.b'')) (Val PNone) =
     Inr (declared (Val (PStr ''a.b'')) (FieldReference [''a'', ''b'']))
   \<and> str_join ''.'' [''a'', ''b''] = ''a.b''"
proof -
  have p1: "json_loads example_host ''{}'' None = Inr (PDict [])"
    by (simp add: json_loads_def example_host_sel default_decoder_empty_object)
  have p1': "json_loads example_host ''{}'' (Some (JsonCls ''JSONDecoder'')) = Inr (PDict [])"
    by (simp add: json_loads_def example_host_sel example_decode_method_def
        default_decoder_empty_object)
  have p2: "json_loads example_host ''model_field'' None = Inl (JSONDecodeError ''Expecting value'')"
    by (simp add: json_loads_def example_host_sel default_decoder_model_field)
  have p3: "json_loads example_host ''a.b'' None = Inl (JSONDecodeError ''Expecting value'')"
    by (simp add: json_loads_def example_host_sel default_decoder_a_b)
  show ?thesis
    using string_spec_parsed_at_declaration
        [of example_host "''{}''" None "PDict []" "Val PNone" "''Expecting value''"]
      string_spec_parsed_at_declaration
        [of example_host "''{}''" "Some (JsonCls ''JSONDecoder'')" "PDict []" "Val PNone"
          "''Expecting value''"]
      string_spec_parsed_at_declaration
        [of example_host "''model_field''" None _ "Val PNone" "''Expecting value''"]
      string_spec_parsed_at_declaration
        [of example_host "''a.b''" None _ "Val PNone" "''Expecting value''"]
      p1 p1' p2 p3
    by (simp add: declared_def)
qed

text \<open>
  C3. A string argument whose parse raises \<open>JSONDecodeError\<close> is stored as a
  \<open>FieldReference\<close> of its segments between dots, and resolving it against an instance is
  the walk of the specification: the attributes are read one after the other, the first
  from the instance, each next one from the value the read before returned, and the
  value of the last read is the resolved schema. In particular, for \<open>a.b\<close>: when reading
  \<open>a\<close> from the instance gives \<open>x\<close> and reading \<open>b\<close> from \<open>x\<close> gives 5, the resolved
  schema is 5.
\<close>

theorem dotted_path_resolution:
  fixes h :: "'w host"
  defines "fld \<equiv> \<lambda>enc s fc.
             \<lparr>self_encoder = enc, self_schema_kwarg = Val (PStr s), self_format_checker = fc,
              self_schema = FieldReference (str_split (CHR ''.'') s)\<rparr>"
  assumes "json_loads h s enc = Inl (JSONDecodeError m)"
  shows "JSONSchemaField_init h enc (Val (PStr s)) fc = Inr (fld enc s fc)
       \<and> get_schema h model_instance \<lparr>this = fld enc s fc, world = w\<rparr> =
           attribute_path h (str_split (CHR ''.'') s) model_instance
             \<lparr>this = fld enc s fc, world = w\<rparr>
       \<and> (s = ''a.b''
            \<and> getattr h model_instance ''a'' \<lparr>this = fld enc s fc, world = w\<rparr> = (Inr x, st1)
            \<and> getattr h x ''b'' st1 = (Inr (PInt 5), st2) \<longrightarrow>
           get_schema h model_instance \<lparr>this = fld enc s fc, world = w\<rparr> = (Inr (PInt 5), st2))"
proof -
  have init: "JSONSchemaField_init h enc (Val (PStr s)) fc = Inr (fld enc s fc)"
    using assms by (simp add: JSONSchemaField_init_def FieldReference_init_def)
  have walk: "get_schema h model_instance \<lparr>this = fld enc s fc, world = w\<rparr> =
      attribute_path h (str_split (CHR ''.'') s) model_instance \<lparr>this = fld enc s fc, world = w\<rparr>"
    by (simp add: fld_def get_schema_def FieldReference_call_attribute_path)
  have five: "get_schema h model_instance \<lparr>this = fld enc s fc, world = w\<rparr> = (Inr (PInt 5), st2)"
    if "s = ''a.b''"
      and "getattr h model_instance ''a'' \<lparr>this = fld enc s fc, world = w\<rparr> = (Inr x, st1)"
      and "getattr h x ''b'' st1 = (Inr (PInt 5), st2)"
    using that by (simp add: fld_def get_schema_def)
  from init walk five show ?thesis by blast
qed

theorem dotted_path_resolution_witness:
  "JSONSchemaField_init example_host None (Val (PStr ''a.b'')) (Val PNone) =
     Inr (declared (Val (PStr ''a.b'')) (FieldReference [''a'', ''b'']))
   \<and> get_schema example_host (PRef 0)
       \<lparr>this = declared (Val (PStr ''a.b'')) (FieldReference [''a'', ''b'']),
        world = [(0, [(''a'', PRef 1)]), (1, [(''b'', PInt 5)])]\<rparr> =
       (Inr (PInt 5),
        \<lparr>this = declared (Val (PStr ''a.b'')) (FieldReference [''a'', ''b'']),
         world = [(0, [(''a'', PRef 1)]), (1, [(''b'', PInt 5)])]\<rparr>)"
proof -
  let ?w = "[(0, [(''a'', PRef 1)]), (1, [(''b'', PInt 5)])] :: heap"
  let ?fld = "declared (Val (PStr ''a.b'')) (FieldReference [''a'', ''b''])"
  let ?st = "\<lparr>this = ?fld, world = ?w\<rparr>"
  have parse: "json_loads example_host ''a.b'' None = Inl (JSONDecodeError ''Expecting value'')"
    by (simp add: json_loads_def example_host_sel default_decoder_a_b)
  have fld: "\<lparr>self_encoder = None, self_schema_kwarg = Val (PStr ''a.b''),
              self_format_checker = Val PNone,
              self_schema = FieldReference (str_split (CHR ''.'') ''a.b'')\<rparr> = ?fld"
    by (simp add: declared_def)
  have a: "getattr example_host (PRef 0) ''a'' ?st = (Inr (PRef 1), ?st)"
    by (simp add: example_host_sel object_getattr_def in_world_def)
  have b: "getattr example_host (PRef 1) ''b'' ?st = (Inr (PInt 5), ?st)"
    by (simp add: example_host_sel object_getattr_def in_world_def)
  note resolution =
    dotted_path_resolution [OF parse, of "Val PNone" "PRef 0" ?w "PRef 1" ?st ?st, unfolded fld]
  from resolution have init:
    "JSONSchemaField_init example_host None (Val (PStr ''a.b'')) (Val PNone) = Inr ?fld"
    by (rule conjunct1)
  from resolution a b have five: "get_schema example_host (PRef 0) ?st = (Inr (PInt 5), ?st)"
    by blast
  from init five show ?thesis by (rule conjI)
qed

text \<open>
  C4, as stated, fails: the engine raises \<open>RefResolutionError\<close> for a reference that does
  not resolve; it is neither of the two classes the \<open>except\<close> clauses name, and it leaves
  \<open>validate_against_schema\<close> as the engine raised it.
\<close>

theorem engine_exception_escapes:
  "jsonschema_validate example_host (PInt 5) (PDict [(''$ref'', PStr ''#/definitions/missing'')])
     (Val PNone)
     \<lparr>this = declared (Val (PDict [(''$ref'', PStr ''#/definitions/missing'')]))
               (Val (PDict [(''$ref'', PStr ''#/definitions/missing'')])),
      world = []\<rparr> =
     (Inl (OtherError ''RefResolutionError'' ''Unresolvable JSON pointer''),
      \<lparr>this = declared (Val (PDict [(''$ref'', PStr ''#/definitions/missing'')]))
                (Val (PDict [(''$ref'', PStr ''#/definitions/missing'')])),
       world = []\<rparr>)
   \<and> validate_against_schema example_host (PInt 5) (PRef 0)
       \<lparr>this = declared (Val (PDict [(''$ref'', PStr ''#/definitions/missing'')]))
                 (Val (PDict [(''$ref'', PStr ''#/definitions/missing'')])),
        world = []\<rparr> =
     (Inl (OtherError ''RefResolutionError'' ''Unresolvable JSON pointer''),
      \<lparr>this = declared (Val (PDict [(''$ref'', PStr ''#/definitions/missing'')]))
                (Val (PDict [(''$ref'', PStr ''#/definitions/missing'')])),
       world = []\<rparr>)"
  by (simp add: validate_against_schema_def get_schema_def in_world_def declared_def
      example_host_sel example_validate_def)

text \<open>
  C4, amended. An exception the engine raises in the \<open>jsonschema.validate\<close> call is caught
  when it is a \<open>jsonschema.exceptions.ValidationError\<close> or a \<open>SchemaError\<close>, and raised again
  as the host's \<open>ValidationError\<close> with the mapped code and the engine's message; an
  exception of any other class leaves \<open>validate_against_schema\<close> as the engine raised it.
\<close>

theorem engine_exceptions_at_the_boundary:
  assumes "get_schema h model_instance st = (Inr schema, st1)"
    and "jsonschema_validate h v schema (self_format_checker (this st1)) st1 = (Inl e, st2)"
  shows "validate_against_schema h v model_instance st =
           (Inl (case e of
                   Jsonschema_ValidationError m \<Rightarrow> ValidationError m ''invalid_data''
                 | Jsonschema_SchemaError m \<Rightarrow> ValidationError m ''invalid_schema_definition''
                 | _ \<Rightarrow> e),
            st2)"
  using assms
  by (simp add: validate_against_schema_def split: exn.splits)

theorem engine_exceptions_at_the_boundary_witness:
  "validate_against_schema example_host (PInt 5) (PRef 0)
     \<lparr>this = declared (Val (PBool False)) (Val (PBool False)), world = []\<rparr> =
     (Inl (ValidationError ''False schema does not allow the value'' ''invalid_data''),
      \<lparr>this = declared (Val (PBool False)) (Val (PBool False)), world = []\<rparr>)
   \<and> validate_against_schema example_host (PInt 5) (PRef 0)
     \<lparr>this = declared (Val (PDict [(''type'', PStr ''int'')]))
               (Val (PDict [(''type'', PStr ''int'')])), world = []\<rparr> =
     (Inl (ValidationError ''int is not a valid type'' ''invalid_schema_definition''),
      \<lparr>this = declared (Val (PDict [(''type'', PStr ''int'')]))
                (Val (PDict [(''type'', PStr ''int'')])), world = []\<rparr>)
   \<and> validate_against_schema example_host (PInt 5) (PRef 0)
     \<lparr>this = declared (Val (PInt 5)) (Val (PInt 5)), world = []\<rparr> =
     (Inl (OtherError ''TypeError'' ''the schema is not iterable''),
      \<lparr>this = declared (Val (PInt 5)) (Val (PInt 5)), world = []\<rparr>)"
proof -
  let ?st = "\<lambda>schema. \<lparr>this = declared (Val schema) (Val schema), world = ([] :: heap)\<rparr>"
  have g: "get_schema example_host (PRef 0) (?st schema) = (Inr schema, ?st schema)" for schema
    by (rule get_schema_Val) (simp add: declared_def)
  have e1: "jsonschema_validate example_host (PInt 5) (PBool False)
              (self_format_checker (this (?st (PBool False)))) (?st (PBool False)) =
            (Inl (Jsonschema_ValidationError ''False schema does not allow the value''),
             ?st (PBool False))"
    by (simp add: example_host_sel example_validate_def in_world_def)
  have e2: "jsonschema_validate example_host (PInt 5) (PDict [(''type'', PStr ''int'')])
              (self_format_checker (this (?st (PDict [(''type'', PStr ''int'')]))))
              (?st (PDict [(''type'', PStr ''int'')])) =
            (Inl (Jsonschema_SchemaError ''int is not a valid type''),
             ?st (PDict [(''type'', PStr ''int'')]))"
    by (simp add: example_host_sel example_validate_def in_world_def json_types_def)
  have e3: "jsonschema_validate example_host (PInt 5) (PInt 5)
              (self_format_checker (this (?st (PInt 5)))) (?st (PInt 5)) =
            (Inl (OtherError ''TypeError'' ''the schema is not iterable''), ?st (PInt 5))"
    by (simp add: example_host_sel example_validate_def in_world_def)
  show ?thesis
    using engine_exceptions_at_the_boundary [OF g e1]
      engine_exceptions_at_the_boundary [OF g e2]
      engine_exceptions_at_the_boundary [OF g e3]
    by simp
qed

text \<open>
  C5. With an encoder on the column, \<open>__init__\<close> hands the encoder class to \<open>json.loads\<close>
  as \<open>cls\<close>, the place of a decoder class. An encoder class has no \<open>decode\<close> method, so
  for the valid JSON text \<open>{}\<close> the parse raises \<open>AttributeError\<close>, which \<open>__init__\<close> does
  not catch: no schema is stored, while the same text parses when the column has no
  encoder.
\<close>

theorem encoder_class_has_no_decode:
  "json_loads example_host ''{}'' (Some DjangoJSONEncoder) = Inl (AttributeError ''decode'')
   \<and> JSONSchemaField_init example_host (Some DjangoJSONEncoder) (Val (PStr ''{}'')) (Val PNone) =
       Inl (AttributeError ''decode'')
   \<and> JSONSchemaField_init example_host None (Val (PStr ''{}'')) (Val PNone) =
       Inr (declared (Val (PStr ''{}'')) (Val (PDict [])))"
  by (simp add: JSONSchemaField_init_def json_loads_def DjangoJSONEncoder_def example_host_sel
      example_decode_method_def default_decoder_empty_object declared_def)

text \<open>
  C6. For a field that was constructed, from whatever schema argument and format checker,
  \<open>deconstruct\<close> returns the base class's name, path and positional arguments, and keyword
  arguments in which \<open>schema\<close> is the argument as it was passed (not what \<open>__init__\<close> made
  of it) and \<open>format_checker\<close> is the format checker as it was passed.
\<close>

theorem deconstruct_returns_declaration:
  assumes "JSONSchemaField_init h enc schema fc = Inr fld"
    and "super_deconstruct h w = (Inr (name, path, args, kwargs), w1)"
  shows "\<exists>kw. deconstruct h \<lparr>this = fld, world = w\<rparr> =
                (Inr (name, path, args, kw), \<lparr>this = fld, world = w1\<rparr>)
              \<and> kw ''schema'' = Some schema
              \<and> kw ''format_checker'' = Some fc"
  using assms(2) init_keeps_arguments [OF assms(1)]
  by (simp add: deconstruct_def in_world_def)

theorem deconstruct_returns_declaration_witness:
  "JSONSchemaField_init example_host None (Val (PStr ''a.b'')) (Callable 7) =
     Inr \<lparr>self_encoder = None, self_schema_kwarg = Val (PStr ''a.b''),
          self_format_checker = Callable 7, self_schema = FieldReference [''a'', ''b'']\<rparr>
   \<and> (\<exists>kw. deconstruct example_host
              \<lparr>this = \<lparr>self_encoder = None, self_schema_kwarg = Val (PStr ''a.b''),
                        self_format_checker = Callable 7,
                        self_schema = FieldReference [''a'', ''b'']\<rparr>,
               world = []\<rparr> =
              (Inr (''json_field'', ''models.fields.JSONSchemaField'', [], kw),
               \<lparr>this = \<lparr>self_encoder = None, self_schema_kwarg = Val (PStr ''a.b''),
                         self_format_checker = Callable 7,
                         self_schema = FieldReference [''a'', ''b'']\<rparr>,
                world = []\<rparr>)
            \<and> kw ''schema'' = Some (Val (PStr ''a.b''))
            \<and> kw ''format_checker'' = Some (Callable 7))"
proof -
  have init: "JSONSchemaField_init example_host None (Val (PStr ''a.b'')) (Callable 7) =
     Inr \<lparr>self_encoder = None, self_schema_kwarg = Val (PStr ''a.b''),
          self_format_checker = Callable 7, self_schema = FieldReference [''a'', ''b'']\<rparr>"
    by (simp add: JSONSchemaField_init_def json_loads_def example_host_sel default_decoder_a_b
        FieldReference_init_def)
  have base: "super_deconstruct example_host ([] :: heap) =
     (Inr (''json_field'', ''models.fields.JSONSchemaField'', [],
           [''blank'' \<mapsto> Val (PBool True)]), [])"
    by (simp add: example_host_sel example_super_deconstruct_def)
  from init deconstruct_returns_declaration [OF init base] show ?thesis by simp
qed

text \<open>
  C7. An exception raised while the schema is resolved is not caught and not translated.
  When a segment of a dotted path cannot be read (the reads before it reached \<open>obj\<close>, and
  \<open>getattr\<close> on \<open>obj\<close> raises \<open>e\<close>), and when a computed schema function raises \<open>e\<close>, both
  \<open>get_schema\<close> and \<open>validate_against_schema\<close> raise that same \<open>e\<close>, whatever its class,
  and the engine is not reached.
\<close>

theorem resolution_errors_propagate:
  "(self_schema (this st) = FieldReference (pre @ attr # rest)
      \<and> FieldReference_call h pre model_instance st = (Inr obj, st1)
      \<and> getattr h obj attr st1 = (Inl e, st2) \<longrightarrow>
      get_schema h model_instance st = (Inl e, st2)
      \<and> validate_against_schema h v model_instance st = (Inl e, st2))
   \<and> (self_schema (this st) = Callable f \<and> call h f model_instance st = (Inl e, st2) \<longrightarrow>
      get_schema h model_instance st = (Inl e, st2)
      \<and> validate_against_schema h v model_instance st = (Inl e, st2))"
  by (simp add: validate_against_schema_def get_schema_def FieldReference_call_append)

theorem resolution_errors_propagate_witness:
  "validate_against_schema example_host (PInt 5) (PRef 0)
     \<lparr>this = declared (Val (PStr ''a.b'')) (FieldReference [''a'', ''b'']),
      world = [(0, [(''a'', PRef 1)]), (1, [])]\<rparr> =
     (Inl (AttributeError ''b''),
      \<lparr>this = declared (Val (PStr ''a.b'')) (FieldReference [''a'', ''b'']),
       world = [(0, [(''a'', PRef 1)]), (1, [])]\<rparr>)
   \<and> validate_against_schema example_host (PInt 5) (PRef 0)
     \<lparr>this = declared (Callable 1) (Callable 1), world = []\<rparr> =
     (Inl (OtherError ''KeyError'' ''schema''),
      \<lparr>this = declared (Callable 1) (Callable 1), world = []\<rparr>)"
proof -
  let ?w = "[(0, [(''a'', PRef 1)]), (1, [])] :: heap"
  let ?st = "\<lparr>this = declared (Val (PStr ''a.b'')) (FieldReference [''a'', ''b'']), world = ?w\<rparr>"
  let ?st' = "\<lparr>this = declared (Callable 1) (Callable 1), world = ([] :: heap)\<rparr>"
  have src: "self_schema (this ?st) = FieldReference ([''a''] @ ''b'' # [])"
    by (simp add: declared_def)
  have pre: "FieldReference_call example_host [''a''] (PRef 0) ?st = (Inr (PRef 1), ?st)"
    by (simp add: example_host_sel object_getattr_def in_world_def)
  have miss: "getattr example_host (PRef 1) ''b'' ?st = (Inl (AttributeError ''b''), ?st)"
    by (simp add: example_host_sel object_getattr_def in_world_def)
  have fn: "self_schema (this ?st') = Callable 1"
    by (simp add: declared_def)
  have raises: "call example_host 1 (PRef 0) ?st' = (Inl (OtherError ''KeyError'' ''schema''), ?st')"
    by (simp add: example_host_sel example_call_def in_world_def)
  show ?thesis
    using resolution_errors_propagate
        [of ?st "[''a'']" "''b''" "[]" example_host "PRef 0" "PRef 1" ?st "AttributeError ''b''" ?st
          "PInt 5"]
      resolution_errors_propagate
        [of ?st' _ _ _ example_host "PRef 0" _ _ "OtherError ''KeyError'' ''schema''" ?st'
          "PInt 5" 1]
      src pre miss fn raises
    by simp
qed

text \<open>
  C8. A \<open>None\<close> argument is stored as the empty mapping and resolves to it. A mapping
  argument is stored as it is and resolves to the very value that was passed, whether
  the mapping is given by its content or is an object of the store that the caller
  shares with the field: then the resolved schema is the same reference, and no copy is
  made, since resolving reads and writes nothing of the state. Against the empty schema
  of a \<open>None\<close> argument, with the engine answering on the empty schema as the
  specification says it does, validating any value returns \<open>None\<close> and leaves the state
  as it was.
\<close>

theorem none_and_mapping_specs:
  fixes h :: "'w host"
  defines "field_of \<equiv> \<lambda>enc fc schema parsed.
             \<lparr>self_encoder = enc, self_schema_kwarg = schema, self_format_checker = fc,
              self_schema = parsed\<rparr>"
  shows "JSONSchemaField_init h enc (Val PNone) fc =
           Inr (field_of enc fc (Val PNone) (Val (PDict [])))
       \<and> get_schema h model_instance
           \<lparr>this = field_of enc fc (Val PNone) (Val (PDict [])), world = w\<rparr> =
           (Inr (PDict []), \<lparr>this = field_of enc fc (Val PNone) (Val (PDict [])), world = w\<rparr>)
       \<and> JSONSchemaField_init h enc (Val (PDict mapping)) fc =
           Inr (field_of enc fc (Val (PDict mapping)) (Val (PDict mapping)))
       \<and> get_schema h model_instance
           \<lparr>this = field_of enc fc (Val (PDict mapping)) (Val (PDict mapping)), world = w\<rparr> =
           (Inr (PDict mapping),
            \<lparr>this = field_of enc fc (Val (PDict mapping)) (Val (PDict mapping)), world = w\<rparr>)
       \<and> JSONSchemaField_init h enc (Val (PRef a)) fc =
           Inr (field_of enc fc (Val (PRef a)) (Val (PRef a)))
       \<and> get_schema h model_instance
           \<lparr>this = field_of enc fc (Val (PRef a)) (Val (PRef a)), world = w\<rparr> =
           (Inr (PRef a), \<lparr>this = field_of enc fc (Val (PRef a)) (Val (PRef a)), world = w\<rparr>)
       \<and> validate_against_schema
           (h\<lparr>jsonschema_validate := engine_of_spec (jsonschema_validate h)\<rparr>) v model_instance
           \<lparr>this = field_of enc fc (Val PNone) (Val (PDict [])), world = w\<rparr> =
           (Inr (), \<lparr>this = field_of enc fc (Val PNone) (Val (PDict [])), world = w\<rparr>)"
  by (simp add: field_of_def JSONSchemaField_init_def get_schema_def
      validate_against_schema_def engine_of_spec_def)

theorem none_and_mapping_specs_witness:
  "JSONSchemaField_init example_host None (Val PNone) (Val PNone) =
     Inr (declared (Val PNone) (Val (PDict [])))
   \<and> get_schema example_host (PRef 0)
       \<lparr>this = declared (Val PNone) (Val (PDict [])), world = [(0, [])]\<rparr> =
       (Inr (PDict []), \<lparr>this = declared (Val PNone) (Val (PDict [])), world = [(0, [])]\<rparr>)
   \<and> JSONSchemaField_init example_host None (Val (PRef 3)) (Val PNone) =
     Inr (declared (Val (PRef 3)) (Val (PRef 3)))
   \<and> get_schema example_host (PRef 0)
       \<lparr>this = declared (Val (PRef 3)) (Val (PRef 3)),
        world = [(0, []), (3, [(''type'', PStr ''integer'')])]\<rparr> =
       (Inr (PRef 3),
        \<lparr>this = declared (Val (PRef 3)) (Val (PRef 3)),
         world = [(0, []), (3, [(''type'', PStr ''integer'')])]\<rparr>)
   \<and> validate_against_schema example_host (PList [PInt 1, PStr ''x'']) (PRef 0)
       \<lparr>this = declared (Val PNone) (Val (PDict [])), world = [(0, [])]\<rparr> =
       (Inr (), \<lparr>this = declared (Val PNone) (Val (PDict [])), world = [(0, [])]\<rparr>)"
proof -
  have engine: "example_host\<lparr>jsonschema_validate :=
                  engine_of_spec (jsonschema_validate example_host)\<rparr> = example_host"
    by (simp add: example_host_sel engine_of_spec_example_validate)
  show ?thesis
    using none_and_mapping_specs
        [of example_host None "Val PNone" "PRef 0" "[(0, [])]" "[]" 3
          "PList [PInt 1, PStr ''x'']"]
      none_and_mapping_specs
        [of example_host None "Val PNone" "PRef 0" "[(0, []), (3, [(''type'', PStr ''integer'')])]"
          "[]" 3 "PInt 5"]
    by (simp add: engine declared_def)
qed

text \<open>
  C9. The methods make no write of their own. Whatever part of the state is looked at (the
  field's attributes \<open>_schema_kwarg\<close>, \<open>_schema\<close> and \<open>format_checker\<close>, the store with the
  value and the instance, or all of it), \<open>get_schema\<close>, \<open>validate_against_schema\<close>,
  \<open>validate\<close> and \<open>deconstruct\<close> leave it as they found it whenever the calls they make to
  their collaborators do: the attribute reads of the path walk or the call of the
  computed function, the engine's call, the base class's call. Resolving plain data
  calls no collaborator: it returns the stored schema, the same for every instance, and
  leaves the whole state as it is. What a collaborator does to an object it is handed is
  its own work, not the field's.
\<close>

theorem methods_write_nothing:
  "(self_schema (this st) = Val schema \<longrightarrow>
        get_schema h model_instance st = (Inr schema, st))
   \<and> (resolution_keeps view h model_instance st \<longrightarrow>
        view (snd (get_schema h model_instance st)) = view st)
   \<and> (resolution_keeps view h model_instance st \<and> engine_keeps view h v model_instance st \<longrightarrow>
        view (snd (validate_against_schema h v model_instance st)) = view st)
   \<and> (validation_keeps view h v model_instance st \<longrightarrow>
        view (snd (validate h v model_instance st)) = view st)
   \<and> (view (snd (in_world (super_deconstruct h) st)) = view st \<longrightarrow>
        view (snd (deconstruct h st)) = view st)"
  by (simp add: get_schema_Val get_schema_keeps validate_against_schema_keeps validate_keeps
      deconstruct_keeps)

theorem methods_write_nothing_witness:
  "snd (get_schema example_host (PRef 0)
          \<lparr>this = declared (Val PNone) (Val (PDict [])), world = [(0, [])]\<rparr>) =
     \<lparr>this = declared (Val PNone) (Val (PDict [])), world = [(0, [])]\<rparr>
   \<and> snd (validate example_host (PInt 7) (PRef 0)
            \<lparr>this = declared (Val (PStr ''a.b'')) (FieldReference [''a'', ''b'']),
             world = [(0, [(''a'', PRef 1)]), (1, [(''b'', PDict [(''type'', PStr ''integer'')])])]\<rparr>) =
       \<lparr>this = declared (Val (PStr ''a.b'')) (FieldReference [''a'', ''b'']),
        world = [(0, [(''a'', PRef 1)]), (1, [(''b'', PDict [(''type'', PStr ''integer'')])])]\<rparr>
   \<and> snd (deconstruct example_host
            \<lparr>this = declared (Val (PStr ''a.b'')) (FieldReference [''a'', ''b'']),
             world = [(0, [(''a'', PRef 1)]), (1, [(''b'', PDict [(''type'', PStr ''integer'')])])]\<rparr>) =
       \<lparr>this = declared (Val (PStr ''a.b'')) (FieldReference [''a'', ''b'']),
        world = [(0, [(''a'', PRef 1)]), (1, [(''b'', PDict [(''type'', PStr ''integer'')])])]\<rparr>
   \<and> this (snd (validate_against_schema (example_host\<lparr>call := touching_call\<rparr>) (PInt 5)
                  (PRef 0) \<lparr>this = declared (Callable 0) (Callable 0), world = [(0, [])]\<rparr>)) =
       declared (Callable 0) (Callable 0)"
proof -
  let ?none = "\<lparr>this = declared (Val PNone) (Val (PDict [])), world = [(0, [])] :: heap\<rparr>"
  let ?schema = "PDict [(''type'', PStr ''integer'')]"
  let ?st = "\<lparr>this = declared (Val (PStr ''a.b'')) (FieldReference [''a'', ''b'']),
              world = [(0, [(''a'', PRef 1)]), (1, [(''b'', ?schema)])] :: heap\<rparr>"
  let ?fn = "\<lparr>this = declared (Callable 0) (Callable 0), world = [(0, [])] :: heap\<rparr>"
  let ?touching = "example_host\<lparr>call := touching_call\<rparr>"
  have plain: "self_schema (this ?none) = Val (PDict [])"
    by (simp add: declared_def)
  have base_validation: "in_world (super_validate example_host (PInt 7) (PRef 0)) ?st = (Inr (), ?st)"
    by (simp add: in_world_def example_host_sel example_super_validate_def)
  have walk: "get_schema example_host (PRef 0) ?st = (Inr ?schema, ?st)"
    by (simp add: get_schema_def declared_def example_host_sel object_getattr_def in_world_def)
  have reads: "resolution_keeps (\<lambda>st. st) example_host (PRef 0) ?st"
    by (simp add: resolution_keeps_def declared_def example_host_sel object_getattr_def
        in_world_def)
  have engine: "engine_keeps (\<lambda>st. st) example_host (PInt 7) (PRef 0) ?st"
    unfolding engine_keeps_def walk
    by (simp add: example_host_sel example_validate_def in_world_def)
  have whole: "validation_keeps (\<lambda>st. st) example_host (PInt 7) (PRef 0) ?st"
    unfolding validation_keeps_def base_validation using reads engine by simp
  have base: "snd (in_world (super_deconstruct example_host) ?st) = ?st"
    by (simp add: example_host_sel example_super_deconstruct_def in_world_def)
  have computed: "get_schema ?touching (PRef 0) ?fn =
      (Inr (PDict []), ?fn\<lparr>world := [(0, [(''touched'', PBool True)])]\<rparr>)"
    by (simp add: get_schema_def declared_def touching_call_def in_world_def)
  have field_kept: "resolution_keeps this ?touching (PRef 0) ?fn"
    by (simp add: resolution_keeps_def declared_def touching_call_def in_world_def)
  have engine_kept: "engine_keeps this ?touching (PInt 5) (PRef 0) ?fn"
    unfolding engine_keeps_def computed
    by (simp add: example_host_def example_validate_def in_world_def)
  from methods_write_nothing [of ?none "PDict []" example_host "PRef 0"] plain
  have "get_schema example_host (PRef 0) ?none = (Inr (PDict []), ?none)"
    by blast
  then have first: "snd (get_schema example_host (PRef 0) ?none) = ?none"
    by simp
  from methods_write_nothing [of ?st _ example_host "PRef 0" "\<lambda>st. st" "PInt 7"] whole base
  have second: "snd (validate example_host (PInt 7) (PRef 0) ?st) = ?st"
    and third: "snd (deconstruct example_host ?st) = ?st"
    by blast+
  from methods_write_nothing [of ?fn _ ?touching "PRef 0" this "PInt 5"] field_kept engine_kept
  have "this (snd (validate_against_schema ?touching (PInt 5) (PRef 0) ?fn)) = this ?fn"
    by blast
  then have fourth: "this (snd (validate_against_schema ?touching (PInt 5) (PRef 0) ?fn)) =
      declared (Callable 0) (Callable 0)"
    by simp
  from first second third fourth show ?thesis by blast
qed

text \<open>
  C10. \<open>validate\<close> runs the base column's validation first. When that raises, \<open>validate\<close>
  raises the same exception from the store the base validation left, and nothing of the
  schema machinery has run: the outcome is the same on every host with that base
  validation, whatever its attribute reads, callables, engine and decoder are. When the
  base validation returns, \<open>validate\<close> is \<open>validate_against_schema\<close> from the store it left.
\<close>

theorem base_validation_first:
  "(super_validate h v model_instance (world st) = (Inl e, w1) \<longrightarrow>
      validate h v model_instance st = (Inl e, st\<lparr>world := w1\<rparr>)
      \<and> (\<forall>h'. super_validate h' = super_validate h \<longrightarrow>
             validate h' v model_instance st = (Inl e, st\<lparr>world := w1\<rparr>)))
   \<and> (super_validate h v model_instance (world st) = (Inr (), w1) \<longrightarrow>
      validate h v model_instance st =
        validate_against_schema h v model_instance (st\<lparr>world := w1\<rparr>))"
  by (simp add: validate_def in_world_def)

theorem base_validation_first_witness:
  "validate example_host (PRef 9) (PRef 0)
     \<lparr>this = declared (Callable 0) (Callable 0), world = [(0, [])]\<rparr> =
     (Inl (ValidationError ''Value must be valid JSON.'' ''invalid''),
      \<lparr>this = declared (Callable 0) (Callable 0), world = [(0, [])]\<rparr>)
   \<and> validate (example_host\<lparr>call := touching_call\<rparr>) (PRef 9) (PRef 0)
     \<lparr>this = declared (Callable 0) (Callable 0), world = [(0, [])]\<rparr> =
     (Inl (ValidationError ''Value must be valid JSON.'' ''invalid''),
      \<lparr>this = declared (Callable 0) (Callable 0), world = [(0, [])]\<rparr>)
   \<and> validate example_host (PInt 5) (PRef 0)
     \<lparr>this = declared (Callable 0) (Callable 0), world = [(0, [])]\<rparr> =
     validate_against_schema example_host (PInt 5) (PRef 0)
       \<lparr>this = declared (Callable 0) (Callable 0), world = [(0, [])]\<rparr>"
proof -
  let ?st = "\<lparr>this = declared (Callable 0) (Callable 0), world = [(0, [])] :: heap\<rparr>"
  have refused: "super_validate example_host (PRef 9) (PRef 0) (world ?st) =
      (Inl (ValidationError ''Value must be valid JSON.'' ''invalid''), [(0, [])])"
    by (simp add: example_host_sel example_super_validate_def)
  have passed: "super_validate example_host (PInt 5) (PRef 0) (world ?st) = (Inr (), [(0, [])])"
    by (simp add: example_host_sel example_super_validate_def)
  have same_base: "super_validate (example_host\<lparr>call := touching_call\<rparr>) = super_validate example_host"
    by simp
  from base_validation_first
      [of example_host "PRef 9" "PRef 0" ?st
        "ValidationError ''Value must be valid JSON.'' ''invalid''" "[(0, [])]"]
    refused
  have first: "validate example_host (PRef 9) (PRef 0) ?st =
      (Inl (ValidationError ''Value must be valid JSON.'' ''invalid''), ?st)"
    and others: "\<forall>h'. super_validate h' = super_validate example_host \<longrightarrow>
      validate h' (PRef 9) (PRef 0) ?st =
        (Inl (ValidationError ''Value must be valid JSON.'' ''invalid''), ?st)"
    by simp_all
  from others same_base
  have second: "validate (example_host\<lparr>call := touching_call\<rparr>) (PRef 9) (PRef 0) ?st =
      (Inl (ValidationError ''Value must be valid JSON.'' ''invalid''), ?st)"
    by blast
  from base_validation_first [of example_host "PInt 5" "PRef 0" ?st _ "[(0, [])]"] passed
  have third: "validate example_host (PInt 5) (PRef 0) ?st =
      validate_against_schema example_host (PInt 5) (PRef 0) ?st"
    by simp
  from first second third show ?thesis by simp
qed

end
